theory Spec2Isabelle
  imports Main
begin

section \<open>The persistence layer as the join-request endpoint sees it\<close>

text \<open>
  The endpoint \<^verbatim>\<open>POST /groups/{groupId}/join-requests\<close> talks to three tables through
  the ORM: groups, group members (with their users) and group join requests. Tables are
  lists of rows, so that a second row for the same key is something the model can
  express. Truthiness tests of the source (\<^verbatim>\<open>!x\<close>, \<^verbatim>\<open>x || d\<close>) treat \<^verbatim>\<open>null\<close>,
  \<^verbatim>\<open>undefined\<close> and the empty string alike.
\<close>

datatype RoleInGroup = MEMBER | ADMIN

datatype RequestStatus = PENDING | ACCEPTED | DECLINED

record User =
  u_name :: "string option"
  u_email :: "string option"

record Group =
  g_id :: string
  g_name :: string

record GroupMember =
  gm_group_id :: string
  gm_user_id :: string
  gm_role :: RoleInGroup

text \<open>A member row as \<^verbatim>\<open>include: { user: true }\<close> returns it.\<close>

record GroupMember_with_user = GroupMember +
  gm_user :: User

text \<open>A group as \<^verbatim>\<open>include: { members: ... }\<close> returns it.\<close>

record Group_with_members = Group +
  g_members :: "GroupMember_with_user list"

record GroupJoinRequest =
  jr_id :: string
  jr_groupId :: string
  jr_userId :: string
  jr_status :: RequestStatus

text \<open>
  The user relation of a member row is required, so the user table is total: every
  user id a row can hold has a profile.
\<close>

record db =
  users :: "string \<Rightarrow> User"
  groups :: "Group list"
  groupMembers :: "GroupMember list"
  groupJoinRequests :: "GroupJoinRequest list"

definition truthy :: "string option \<Rightarrow> bool" where
  "truthy x = (case x of None \<Rightarrow> False | Some s \<Rightarrow> s \<noteq> [])"

text \<open>\<^verbatim>\<open>x || d\<close> on an optional string.\<close>

definition or_default :: "string option \<Rightarrow> string \<Rightarrow> string" where
  "or_default x d = (case x of None \<Rightarrow> d | Some s \<Rightarrow> if s = [] then d else s)"

definition with_user :: "db \<Rightarrow> GroupMember \<Rightarrow> GroupMember_with_user" where
  "with_user d m =
     \<lparr>gm_group_id = gm_group_id m, gm_user_id = gm_user_id m, gm_role = gm_role m,
      gm_user = users d (gm_user_id m)\<rparr>"

text \<open>
  \<^verbatim>\<open>prisma.group.findUnique({ where: { id }, include: { members: { where: { role: ADMIN },
  include: { user: true } } } })\<close>
\<close>

definition group_findUnique :: "db \<Rightarrow> string \<Rightarrow> Group_with_members option" where
  "group_findUnique d groupId =
     (case find (\<lambda>g. g_id g = groupId) (groups d) of
        None \<Rightarrow> None
      | Some g \<Rightarrow>
          Some \<lparr>g_id = g_id g, g_name = g_name g,
                g_members =
                  map (with_user d)
                    (filter (\<lambda>m. gm_group_id m = g_id g \<and> gm_role m = ADMIN)
                       (groupMembers d))\<rparr>)"

text \<open>\<^verbatim>\<open>prisma.groupMember.findUnique({ where: { group_id_user_id: ... } })\<close>\<close>

definition groupMember_findUnique :: "db \<Rightarrow> string \<Rightarrow> string \<Rightarrow> GroupMember option" where
  "groupMember_findUnique d groupId userId =
     find (\<lambda>m. gm_group_id m = groupId \<and> gm_user_id m = userId) (groupMembers d)"

text \<open>
  An update through a unique key (\<^verbatim>\<open>where: { groupId_userId }\<close>, \<^verbatim>\<open>where: { id }\<close>)
  changes the one row the key finds, the first that matches in the table.
\<close>

fun update_first :: "('a \<Rightarrow> bool) \<Rightarrow> ('a \<Rightarrow> 'a) \<Rightarrow> 'a list \<Rightarrow> 'a list" where
  "update_first P f [] = []"
| "update_first P f (x # xs) = (if P x then f x # xs else x # update_first P f xs)"

definition has_key :: "string \<Rightarrow> string \<Rightarrow> GroupJoinRequest \<Rightarrow> bool" where
  "has_key groupId userId r = (jr_groupId r = groupId \<and> jr_userId r = userId)"

text \<open>\<^verbatim>\<open>prisma.groupJoinRequest.findUnique({ where: { groupId_userId: ... } })\<close>\<close>

definition groupJoinRequest_findUnique ::
  "db \<Rightarrow> string \<Rightarrow> string \<Rightarrow> GroupJoinRequest option" where
  "groupJoinRequest_findUnique d groupId userId =
     find (has_key groupId userId) (groupJoinRequests d)"

text \<open>
  \<^verbatim>\<open>prisma.groupJoinRequest.upsert({ where: { groupId_userId }, update: { status:
  'PENDING' }, create: { groupId, userId, status: 'PENDING' } })\<close>: the row with the key
  gets the update when there is one, otherwise a row is created. The id of a created row
  is the one the database generates, \<open>new_id\<close>.
\<close>

definition groupJoinRequest_upsert :: "db \<Rightarrow> string \<Rightarrow> string \<Rightarrow> string \<Rightarrow> db" where
  "groupJoinRequest_upsert d groupId userId new_id =
     (if list_ex (has_key groupId userId) (groupJoinRequests d)
      then d\<lparr>groupJoinRequests :=
                update_first (has_key groupId userId) (\<lambda>r. r\<lparr>jr_status := PENDING\<rparr>)
                  (groupJoinRequests d)\<rparr>
      else d\<lparr>groupJoinRequests :=
                groupJoinRequests d @
                  [\<lparr>jr_id = new_id, jr_groupId = groupId, jr_userId = userId,
                    jr_status = PENDING\<rparr>]\<rparr>)"

section \<open>The environment of one call\<close>

record session_user =
  su_id :: "string option"
  su_name :: "string option"

record session =
  s_user :: "session_user option"

datatype prisma_call = GroupFindUnique | MemberFindUnique | RequestFindUnique | RequestUpsert

datatype exn = PrismaError prisma_call

text \<open>What happens inside the inner \<^verbatim>\<open>try\<close> for one admin.\<close>

datatype notify_outcome = Delivered | RenderThrows | SendThrows

text \<open>
  Everything the handler reads from outside the store: the session, which ORM call (if
  any) throws, the id the database gives a created row, and how rendering and sending go
  for each admin.
\<close>

record env =
  getSession :: "session option"
  prisma_throws :: "prisma_call \<Rightarrow> bool"
  created_id :: string
  notify :: "GroupMember_with_user \<Rightarrow> notify_outcome"

text \<open>What the handler does to the outside, in order.\<close>

datatype event =
  Render string string string
| Send string string
| ConsoleError string

record response =
  message :: string
  status :: nat

definition json :: "string \<Rightarrow> nat \<Rightarrow> response" where
  "json m s = \<lparr>message = m, status = s\<rparr>"

section \<open>The handler\<close>

text \<open>
  The body of \<^verbatim>\<open>for (const admin of admins)\<close> for one admin: nothing when the email is
  falsy; otherwise the template is rendered, the mail is sent, and a throw of either is
  caught and logged.
\<close>

definition notify_admin ::
  "(GroupMember_with_user \<Rightarrow> notify_outcome) \<Rightarrow> string \<Rightarrow> string \<Rightarrow>
     GroupMember_with_user \<Rightarrow> event list" where
  "notify_admin oc requesterName groupName admin =
     (case u_email (gm_user admin) of
        None \<Rightarrow> []
      | Some to \<Rightarrow>
          if to = [] then []
          else
            (let rendering = Render (or_default (u_name (gm_user admin)) ''Admin'')
                               requesterName groupName;
                 sending = Send to (''Nouvelle demande pour rejoindre '' @ groupName);
                 failed = ConsoleError (''Failed to send email to '' @ to @ '':'')
             in case oc admin of
                  RenderThrows \<Rightarrow> [rendering, failed]
                | SendThrows \<Rightarrow> [rendering, sending, failed]
                | Delivered \<Rightarrow> [rendering, sending]))"

fun notify_admins ::
  "(GroupMember_with_user \<Rightarrow> notify_outcome) \<Rightarrow> string \<Rightarrow> string \<Rightarrow>
     GroupMember_with_user list \<Rightarrow> event list" where
  "notify_admins oc requesterName groupName [] = []"
| "notify_admins oc requesterName groupName (admin # admins) =
     notify_admin oc requesterName groupName admin @
     notify_admins oc requesterName groupName admins"

text \<open>
  The \<^verbatim>\<open>try\<close> block of the handler. \<open>Inl\<close> is an exception that reaches the outer
  \<^verbatim>\<open>catch\<close>; an ORM call that throws has written nothing.
\<close>

definition POST_try ::
  "env \<Rightarrow> db \<Rightarrow> session_user \<Rightarrow> string \<Rightarrow> string \<Rightarrow> (exn + response) \<times> db \<times> event list" where
  "POST_try e d requester groupId userId =
     (if prisma_throws e GroupFindUnique then (Inl (PrismaError GroupFindUnique), d, [])
      else
        (case group_findUnique d groupId of
           None \<Rightarrow> (Inr (json ''Group not found.'' 404), d, [])
         | Some grp \<Rightarrow>
             (if prisma_throws e MemberFindUnique
              then (Inl (PrismaError MemberFindUnique), d, [])
              else
                (case groupMember_findUnique d groupId userId of
                   Some existingMembership \<Rightarrow>
                     (Inr (json ''You are already a member of this group.'' 400), d, [])
                 | None \<Rightarrow>
                     (if prisma_throws e RequestFindUnique
                      then (Inl (PrismaError RequestFindUnique), d, [])
                      else if (case groupJoinRequest_findUnique d groupId userId of
                                 None \<Rightarrow> False
                               | Some existingRequest \<Rightarrow> jr_status existingRequest = PENDING)
                      then (Inr (json ''You have already requested to join this group.'' 400),
                            d, [])
                      else if prisma_throws e RequestUpsert
                      then (Inl (PrismaError RequestUpsert), d, [])
                      else
                        (Inr (json ''Join request sent successfully.'' 201),
                         groupJoinRequest_upsert d groupId userId (created_id e),
                         notify_admins (notify e)
                           (or_default (su_name requester) ''Un utilisateur'')
                           (g_name grp) (g_members grp)))))))"

text \<open>
  \<^verbatim>\<open>export async function POST(request, { params })\<close>: the response, the store after
  the call and what was done to the outside.
\<close>

definition POST :: "env \<Rightarrow> db \<Rightarrow> string \<Rightarrow> response \<times> db \<times> event list" where
  "POST e d groupId =
     (case getSession e of
        None \<Rightarrow> (json ''Unauthorized'' 401, d, [])
      | Some sess \<Rightarrow>
          (case s_user sess of
             None \<Rightarrow> (json ''Unauthorized'' 401, d, [])
           | Some requester \<Rightarrow>
               if \<not> truthy (su_id requester) then (json ''Unauthorized'' 401, d, [])
               else if groupId = [] then (json ''Group ID is required.'' 400, d, [])
               else
                 (case POST_try e d requester groupId (the (su_id requester)) of
                    (Inl error, d', evs) \<Rightarrow>
                      (json ''An internal error occurred.'' 500, d',
                       evs @ [ConsoleError ''Error processing join request:''])
                  | (Inr res, d', evs) \<Rightarrow> (res, d', evs))))"


section \<open>Resolving a request\<close>

datatype action = Accept | Decline

datatype resolve_error = NotFound | InternalError

definition set_status ::
  "string \<Rightarrow> string \<Rightarrow> RequestStatus \<Rightarrow> GroupJoinRequest list \<Rightarrow> GroupJoinRequest list" where
  "set_status groupId requestId st rows =
     update_first (\<lambda>r. jr_id r = requestId \<and> jr_groupId r = groupId)
       (\<lambda>r. r\<lparr>jr_status := st\<rparr>) rows"

text \<open>
  Modelled from the spec: the server side of \<^verbatim>\<open>PUT /groups/{groupId}/join-requests/
  {requestId}\<close> is not among the sources (only its caller \<^verbatim>\<open>handleRequestAction\<close> is),
  so \<open>resolve\<close> follows section 4.1 of the specification: not found when no request
  with that id exists in that group or when its status is not \<open>PENDING\<close>; on accept, in
  one transaction, the status becomes \<open>ACCEPTED\<close> and a membership row with role
  \<open>MEMBER\<close> is created; on decline the status becomes \<open>DECLINED\<close>; the updated status is
  returned. \<open>txn_fails\<close> is a store failure of the transaction: it leaves the store as
  it was. That the caller is an admin of the group is a precondition enforced by the
  authorization collaborator, outside this function.
\<close>

definition resolve ::
  "bool \<Rightarrow> db \<Rightarrow> string \<Rightarrow> string \<Rightarrow> action \<Rightarrow> string \<Rightarrow> (resolve_error + RequestStatus) \<times> db" where
  "resolve txn_fails d groupId requestId act callerUserId =
     (case find (\<lambda>r. jr_id r = requestId \<and> jr_groupId r = groupId) (groupJoinRequests d) of
        None \<Rightarrow> (Inl NotFound, d)
      | Some r \<Rightarrow>
          (if jr_status r \<noteq> PENDING then (Inl NotFound, d)
           else if txn_fails then (Inl InternalError, d)
           else
             (case act of
                Accept \<Rightarrow>
                  (Inr ACCEPTED,
                   d\<lparr>groupJoinRequests :=
                        set_status groupId requestId ACCEPTED (groupJoinRequests d),
                      groupMembers :=
                        groupMembers d @
                          [\<lparr>gm_group_id = groupId, gm_user_id = jr_userId r,
                            gm_role = MEMBER\<rparr>]\<rparr>)
              | Decline \<Rightarrow>
                  (Inr DECLINED,
                   d\<lparr>groupJoinRequests :=
                        set_status groupId requestId DECLINED (groupJoinRequests d)\<rparr>))))"

section \<open>Sequences of operations\<close>

datatype op =
  Create env string
| Resolve bool string string action string

fun apply_op :: "db \<Rightarrow> op \<Rightarrow> db" where
  "apply_op d (Create e groupId) = fst (snd (POST e d groupId))"
| "apply_op d (Resolve txn_fails groupId requestId act callerUserId) =
     snd (resolve txn_fails d groupId requestId act callerUserId)"

definition run :: "op list \<Rightarrow> db \<Rightarrow> db" where
  "run ops d = foldl apply_op d ops"

text \<open>The pair a join request belongs to, and the tables' unique constraint on it.\<close>

definition pair_of :: "GroupJoinRequest \<Rightarrow> string \<times> string" where
  "pair_of r = (jr_groupId r, jr_userId r)"

definition unique_pairs :: "db \<Rightarrow> bool" where
  "unique_pairs d = distinct (map pair_of (groupJoinRequests d))"

definition rows_of :: "db \<Rightarrow> string \<Rightarrow> string \<Rightarrow> GroupJoinRequest list" where
  "rows_of d groupId userId = filter (has_key groupId userId) (groupJoinRequests d)"

definition no_throw :: "env \<Rightarrow> bool" where
  "no_throw e =
     (\<not> prisma_throws e GroupFindUnique \<and> \<not> prisma_throws e MemberFindUnique \<and>
      \<not> prisma_throws e RequestFindUnique \<and> \<not> prisma_throws e RequestUpsert)"

text \<open>\<^verbatim>\<open>session?.user\<close>\<close>

definition requester_of :: "env \<Rightarrow> session_user option" where
  "requester_of e = (case getSession e of None \<Rightarrow> None | Some sess \<Rightarrow> s_user sess)"

text \<open>The session is the one of user \<open>userId\<close>.\<close>

definition signed_in :: "env \<Rightarrow> string \<Rightarrow> bool" where
  "signed_in e userId =
     (userId \<noteq> [] \<and>
      (case requester_of e of None \<Rightarrow> False | Some u \<Rightarrow> su_id u = Some userId))"

text \<open>State predicates: the group exists, the pair has a membership, a pending request.\<close>

definition group_exists :: "db \<Rightarrow> string \<Rightarrow> bool" where
  "group_exists d groupId = list_ex (\<lambda>g. g_id g = groupId) (groups d)"

definition is_member :: "db \<Rightarrow> string \<Rightarrow> string \<Rightarrow> bool" where
  "is_member d groupId userId =
     list_ex (\<lambda>m. gm_group_id m = groupId \<and> gm_user_id m = userId) (groupMembers d)"

definition pending :: "db \<Rightarrow> string \<Rightarrow> string \<Rightarrow> bool" where
  "pending d groupId userId =
     list_ex (\<lambda>r. has_key groupId userId r \<and> jr_status r = PENDING) (groupJoinRequests d)"

text \<open>
  The pair has an accepted request; and the two tables agree: every accepted request
  has its membership, and every membership with role \<open>MEMBER\<close> has its accepted request.
\<close>

definition accepted :: "db \<Rightarrow> string \<Rightarrow> string \<Rightarrow> bool" where
  "accepted d groupId userId =
     list_ex (\<lambda>r. has_key groupId userId r \<and> jr_status r = ACCEPTED) (groupJoinRequests d)"

definition consistent :: "db \<Rightarrow> bool" where
  "consistent d =
     (list_all (\<lambda>r. jr_status r = ACCEPTED \<longrightarrow> is_member d (jr_groupId r) (jr_userId r))
        (groupJoinRequests d) \<and>
      list_all (\<lambda>m. gm_role m = MEMBER \<longrightarrow> accepted d (gm_group_id m) (gm_user_id m))
        (groupMembers d))"

definition renders :: "event list \<Rightarrow> event list" where
  "renders evs = filter (\<lambda>ev. case ev of Render a r g \<Rightarrow> True | _ \<Rightarrow> False) evs"

definition sends :: "event list \<Rightarrow> event list" where
  "sends evs = filter (\<lambda>ev. case ev of Send to subject \<Rightarrow> True | _ \<Rightarrow> False) evs"

definition console_errors :: "event list \<Rightarrow> event list" where
  "console_errors evs = filter (\<lambda>ev. case ev of ConsoleError m \<Rightarrow> True | _ \<Rightarrow> False) evs"

definition has_email :: "GroupMember_with_user \<Rightarrow> bool" where
  "has_email admin = truthy (u_email (gm_user admin))"

section \<open>The pending list of the client component\<close>

record JoinRequest_user =
  ju_id :: string
  ju_name :: "string option"
  ju_image :: "string option"
  ju_email :: "string option"

record JoinRequest =
  req_id :: string
  req_user :: JoinRequest_user

datatype variant = default | destructive

record toast =
  title :: string
  description :: string
  variant :: variant

record view =
  requests :: "JoinRequest list"
  toasts :: "toast list"

text \<open>A thrown value: an \<^verbatim>\<open>Error\<close> with its message, or anything else.\<close>

datatype thrown = Error string | NotAnError

text \<open>
  What \<^verbatim>\<open>response.json()\<close> gives on an error response: it throws, or it yields an
  object whose \<^verbatim>\<open>message\<close> may be missing.
\<close>

datatype error_body = JsonThrows thrown | ErrorData "string option"

text \<open>What \<^verbatim>\<open>fetch\<close> gives: it throws, or a response with its \<^verbatim>\<open>ok\<close> flag and body.\<close>

datatype fetch_result = FetchThrows thrown | Response bool error_body

definition action_str :: "action \<Rightarrow> string" where
  "action_str a = (case a of Accept \<Rightarrow> ''accept'' | Decline \<Rightarrow> ''decline'')"

text \<open>The \<^verbatim>\<open>catch\<close> block of \<^verbatim>\<open>handleRequestAction\<close>.\<close>

definition catch_toast :: "view \<Rightarrow> thrown \<Rightarrow> view" where
  "catch_toast v err =
     v\<lparr>toasts := toasts v @
        [\<lparr>title = ''Erreur'',
          description =
            (case err of Error m \<Rightarrow> m | NotAnError \<Rightarrow> ''Une erreur inconnue est survenue.''),
          variant = destructive\<rparr>]\<rparr>"

text \<open>
  \<^verbatim>\<open>handleRequestAction(requestId, action)\<close>, given what the \<^verbatim>\<open>PUT\<close> request came
  back with. The accented letters of the success toast are written by their code.
\<close>

definition handleRequestAction :: "fetch_result \<Rightarrow> view \<Rightarrow> string \<Rightarrow> action \<Rightarrow> view" where
  "handleRequestAction fetched v requestId act =
     (case fetched of
        FetchThrows err \<Rightarrow> catch_toast v err
      | Response ok body \<Rightarrow>
          (if \<not> ok then
             (case body of
                JsonThrows err \<Rightarrow> catch_toast v err
              | ErrorData m \<Rightarrow>
                  catch_toast v
                    (Error (or_default m (''Failed to '' @ action_str act @ '' request.''))))
           else
             v\<lparr>toasts := toasts v @
                  [\<lparr>title = ''Succ'' @ [CHR 0xE8] @ ''s'',
                    description =
                      ''La demande a '' @ [CHR 0xE9] @ ''t'' @ [CHR 0xE9] @ '' '' @
                      (if act = Accept then ''accept&apos;ee'' else ''refus&apos;ee'') @ ''.'',
                    variant = default\<rparr>],
               requests := filter (\<lambda>req. req_id req \<noteq> requestId) (requests v)\<rparr>))"


section \<open>A small store to run the operations on\<close>

text \<open>
  The group BookClub with three admins: Alice and Dave have an email address, Carol has
  none. Bob is signed in and asks to join.
\<close>

definition ex_users :: "string \<Rightarrow> User" where
  "ex_users i =
     (if i = ''alice'' then \<lparr>u_name = Some ''Alice'', u_email = Some ''alice@x.com''\<rparr>
      else if i = ''carol'' then \<lparr>u_name = Some ''Carol'', u_email = None\<rparr>
      else if i = ''dave'' then \<lparr>u_name = None, u_email = Some ''dave@x.com''\<rparr>
      else \<lparr>u_name = Some ''Bob'', u_email = Some ''bob@x.com''\<rparr>)"

definition ex_admin :: "string \<Rightarrow> GroupMember" where
  "ex_admin i = \<lparr>gm_group_id = ''bookclub'', gm_user_id = i, gm_role = ADMIN\<rparr>"

definition ex_row :: "RequestStatus \<Rightarrow> GroupJoinRequest" where
  "ex_row st = \<lparr>jr_id = ''r1'', jr_groupId = ''bookclub'', jr_userId = ''bob'', jr_status = st\<rparr>"

definition ex_db :: "GroupJoinRequest list \<Rightarrow> db" where
  "ex_db rows =
     \<lparr>users = ex_users,
      groups = [\<lparr>g_id = ''bookclub'', g_name = ''BookClub''\<rparr>],
      groupMembers = [ex_admin ''alice'', ex_admin ''carol'', ex_admin ''dave''],
      groupJoinRequests = rows\<rparr>"

definition ex_bob :: session_user where
  "ex_bob = \<lparr>su_id = Some ''bob'', su_name = Some ''Bob''\<rparr>"

definition never :: "prisma_call \<Rightarrow> bool" where
  "never c = False"

definition upsert_only :: "prisma_call \<Rightarrow> bool" where
  "upsert_only c = (c = RequestUpsert)"

definition ex_env :: "(prisma_call \<Rightarrow> bool) \<Rightarrow> env" where
  "ex_env throws =
     \<lparr>getSession = Some \<lparr>s_user = Some ex_bob\<rparr>,
      prisma_throws = throws,
      created_id = ''r1'',
      notify = (\<lambda>admin. if gm_user_id admin = ''alice'' then SendThrows else Delivered)\<rparr>"

text \<open>The pending list on the screen: three requests.\<close>

definition ex_req :: "string \<Rightarrow> JoinRequest" where
  "ex_req i =
     \<lparr>req_id = i,
      req_user = \<lparr>ju_id = ''user-'' @ i, ju_name = None, ju_image = None, ju_email = None\<rparr>\<rparr>"

definition ex_view :: view where
  "ex_view = \<lparr>requests = [ex_req ''r1'', ex_req ''r2'', ex_req ''r3''], toasts = []\<rparr>"

text \<open>Bob is already a member of BookClub, and his earlier request stands accepted.\<close>

definition ex_member_db :: db where
  "ex_member_db =
     (ex_db [ex_row ACCEPTED])\<lparr>groupMembers :=
        [ex_admin ''alice'',
         \<lparr>gm_group_id = ''bookclub'', gm_user_id = ''bob'', gm_role = MEMBER\<rparr>]\<rparr>"

text \<open>Bob asks twice, is declined, asks again and is accepted.\<close>

definition ex_ops :: "op list" where
  "ex_ops =
     [Create (ex_env never) ''bookclub'',
      Create (ex_env never) ''bookclub'',
      Resolve False ''bookclub'' ''r1'' Decline ''alice'',
      Create (ex_env never) ''bookclub'',
      Resolve False ''bookclub'' ''r1'' Accept ''alice'']"

text \<open>Rendering the mail for Alice throws; every other mail goes out.\<close>

definition ex_outcome :: "GroupMember_with_user \<Rightarrow> notify_outcome" where
  "ex_outcome a = (if gm_user_id a = ''alice'' then RenderThrows else Delivered)"

text \<open>The transport fails for the mail to Alice; every other mail goes out.\<close>

definition ex_transport_error :: "GroupMember_with_user \<Rightarrow> notify_outcome" where
  "ex_transport_error a = (if gm_user_id a = ''alice'' then SendThrows else Delivered)"

text \<open>BookClub as the first query returns it, with its admins and their users.\<close>

definition ex_group :: Group_with_members where
  "ex_group =
     \<lparr>g_id = ''bookclub'', g_name = ''BookClub'',
      g_members =
        map (with_user (ex_db [])) [ex_admin ''alice'', ex_admin ''carol'', ex_admin ''dave'']\<rparr>"

section \<open>Queries and state predicates\<close>

lemma find_None_list_ex: "(find P xs = None) = (\<not> list_ex P xs)"
  by (auto simp: find_None_iff list_ex_iff)

lemma group_found: "group_exists d G \<Longrightarrow> \<exists>grp. group_findUnique d G = Some grp"
  unfolding group_exists_def group_findUnique_def
  by (cases "find (\<lambda>g. g_id g = G) (groups d)") (simp_all add: find_None_list_ex)

lemma member_found: "is_member d G U \<Longrightarrow> \<exists>m. groupMember_findUnique d G U = Some m"
  unfolding is_member_def groupMember_findUnique_def
  by (cases "find (\<lambda>m. gm_group_id m = G \<and> gm_user_id m = U) (groupMembers d)")
     (simp_all add: find_None_list_ex)

lemma member_not_found: "\<not> is_member d G U \<Longrightarrow> groupMember_findUnique d G U = None"
  unfolding is_member_def groupMember_findUnique_def by (simp add: find_None_list_ex)

lemma not_pending_check:
  "\<not> pending d G U \<Longrightarrow>
   (case groupJoinRequest_findUnique d G U of None \<Rightarrow> False
    | Some r \<Rightarrow> jr_status r = PENDING) = False"
  unfolding pending_def groupJoinRequest_findUnique_def
  by (auto simp: find_Some_iff list_ex_iff split: option.splits)

section \<open>The handler, path by path\<close>

lemma signed_in_requester: "signed_in e U \<Longrightarrow> \<exists>u. requester_of e = Some u"
  by (auto simp: signed_in_def split: option.splits)

lemma POST_signed_in:
  assumes "signed_in e U" and "G \<noteq> []" and "requester_of e = Some u"
  shows "POST e d G =
     (case POST_try e d u G U of
        (Inl error, d', evs) \<Rightarrow>
          (json ''An internal error occurred.'' 500, d',
           evs @ [ConsoleError ''Error processing join request:''])
      | (Inr res, d', evs) \<Rightarrow> (res, d', evs))"
  using assms
  by (auto simp: POST_def signed_in_def requester_of_def truthy_def split: option.splits)

lemma POST_try_success:
  assumes "no_throw e" and "group_findUnique d G = Some grp" and "\<not> is_member d G U"
    and "(case groupJoinRequest_findUnique d G U of None \<Rightarrow> False
          | Some r \<Rightarrow> jr_status r = PENDING) = False"
  shows "POST_try e d u G U =
    (Inr (json ''Join request sent successfully.'' 201),
     groupJoinRequest_upsert d G U (created_id e),
     notify_admins (notify e) (or_default (su_name u) ''Un utilisateur'')
       (g_name grp) (g_members grp))"
  using assms member_not_found[OF assms(3)]
  by (simp add: POST_try_def no_throw_def)

lemma POST_success:
  assumes "signed_in e U" and "G \<noteq> []" and "requester_of e = Some u"
    and "no_throw e" and "group_findUnique d G = Some grp" and "\<not> is_member d G U"
    and "(case groupJoinRequest_findUnique d G U of None \<Rightarrow> False
          | Some r \<Rightarrow> jr_status r = PENDING) = False"
  shows "POST e d G =
    (json ''Join request sent successfully.'' 201,
     groupJoinRequest_upsert d G U (created_id e),
     notify_admins (notify e) (or_default (su_name u) ''Un utilisateur'')
       (g_name grp) (g_members grp))"
  using POST_signed_in[OF assms(1,2,3)] POST_try_success[OF assms(4,5,6,7)]
  by simp

lemma POST_try_db_cases:
  "fst (snd (POST_try e d u G U)) = d \<or>
   (\<not> is_member d G U \<and>
    fst (snd (POST_try e d u G U)) = groupJoinRequest_upsert d G U (created_id e))"
  by (auto simp: POST_try_def groupMember_findUnique_def is_member_def find_None_list_ex
      split: option.splits if_splits)

lemma POST_db_cases_guarded:
  "fst (snd (POST e d G)) = d \<or>
   (\<exists>U. \<not> is_member d G U \<and>
        fst (snd (POST e d G)) = groupJoinRequest_upsert d G U (created_id e))"
proof (cases "\<exists>u. requester_of e = Some u \<and> truthy (su_id u) \<and> G \<noteq> []")
  case False
  then have "fst (snd (POST e d G)) = d"
    by (auto simp: POST_def requester_of_def split: option.splits)
  then show ?thesis by simp
next
  case True
  then obtain u where u: "requester_of e = Some u" "truthy (su_id u)" "G \<noteq> []" by blast
  then have P: "fst (snd (POST e d G)) = fst (snd (POST_try e d u G (the (su_id u))))"
    by (auto simp: POST_def requester_of_def split: option.splits prod.splits sum.splits)
  with POST_try_db_cases[of e d u G "the (su_id u)"] show ?thesis by auto
qed

section \<open>Updating the row a key finds\<close>

lemma find_app:
  "find P (xs @ ys) = (case find P xs of None \<Rightarrow> find P ys | Some x \<Rightarrow> Some x)"
  by (induction xs) simp_all

lemma update_first_map: "(\<And>x. g (f x) = g x) \<Longrightarrow> map g (update_first P f rows) = map g rows"
  by (induction rows) simp_all

lemma update_first_find:
  "find P rows = Some r \<Longrightarrow> P (f r) \<Longrightarrow> find P (update_first P f rows) = Some (f r)"
  by (induction rows) (auto split: if_splits)

lemma update_first_split:
  "find P rows = Some r \<Longrightarrow>
   \<exists>xs ys. rows = xs @ r # ys \<and> update_first P f rows = xs @ f r # ys \<and> filter P xs = []"
proof (induction rows)
  case Nil
  then show ?case by simp
next
  case (Cons x rows)
  show ?case
  proof (cases "P x")
    case True
    with Cons.prems have "x = r" by simp
    with True have "x # rows = [] @ r # rows \<and>
        update_first P f (x # rows) = [] @ f r # rows \<and> filter P [] = []"
      by simp
    then show ?thesis by blast
  next
    case False
    with Cons.prems have "find P rows = Some r" by simp
    from Cons.IH[OF this] obtain xs ys where
      "rows = xs @ r # ys" "update_first P f rows = xs @ f r # ys" "filter P xs = []"
      by blast
    with False have "x # rows = (x # xs) @ r # ys \<and>
        update_first P f (x # rows) = (x # xs) @ f r # ys \<and> filter P (x # xs) = []"
      by simp
    then show ?thesis by blast
  qed
qed

section \<open>The upsert keeps the pairs unique\<close>

lemma pair_of_status: "pair_of (r\<lparr>jr_status := st\<rparr>) = pair_of r"
  by (simp add: pair_of_def)

lemma pair_absent:
  "\<not> list_ex (has_key G U) rows \<Longrightarrow> (G, U) \<notin> set (map pair_of rows)"
  by (induction rows) (auto simp: pair_of_def has_key_def)

lemma upsert_unique: "unique_pairs d \<Longrightarrow> unique_pairs (groupJoinRequest_upsert d G U i)"
proof (cases "list_ex (has_key G U) (groupJoinRequests d)")
  case True
  assume "unique_pairs d"
  with True show ?thesis
    unfolding unique_pairs_def groupJoinRequest_upsert_def
    by (simp add: update_first_map[of pair_of, OF pair_of_status])
next
  case False
  assume "unique_pairs d"
  with False pair_absent[OF False] show ?thesis
    unfolding unique_pairs_def groupJoinRequest_upsert_def
    by (simp add: pair_of_def)
qed

lemma pair_of_set_status: "map pair_of (set_status G R st rows) = map pair_of rows"
  unfolding set_status_def by (rule update_first_map) (rule pair_of_status)

lemma resolve_unique: "unique_pairs d \<Longrightarrow> unique_pairs (snd (resolve f d G R a c))"
  unfolding unique_pairs_def resolve_def
  by (simp add: pair_of_set_status split: option.splits action.splits)

lemma POST_unique: "unique_pairs d \<Longrightarrow> unique_pairs (fst (snd (POST e d G)))"
  using POST_db_cases_guarded[of e d G] upsert_unique by auto

lemma apply_op_unique: "unique_pairs d \<Longrightarrow> unique_pairs (apply_op d x)"
  by (cases x) (simp_all add: POST_unique resolve_unique)

lemma run_unique: "unique_pairs d \<Longrightarrow> unique_pairs (run ops d)"
  unfolding run_def
  by (induction ops arbitrary: d) (simp_all add: apply_op_unique)

lemma upsert_existing:
  "groupJoinRequest_findUnique d G U = Some r \<Longrightarrow>
   groupJoinRequests (groupJoinRequest_upsert d G U i) =
     update_first (has_key G U) (\<lambda>x. x\<lparr>jr_status := PENDING\<rparr>) (groupJoinRequests d)"
  unfolding groupJoinRequest_findUnique_def groupJoinRequest_upsert_def
  using find_None_list_ex[of "has_key G U" "groupJoinRequests d"]
  by simp

lemma has_key_status: "has_key G U (r\<lparr>jr_status := st\<rparr>) = has_key G U r"
  by (simp add: has_key_def)

lemma reopen_find:
  "find (has_key G U) rows = Some r \<Longrightarrow>
   find (has_key G U) (update_first (has_key G U) (\<lambda>x. x\<lparr>jr_status := PENDING\<rparr>) rows)
     = Some (r\<lparr>jr_status := PENDING\<rparr>)"
  by (rule update_first_find) (auto simp: has_key_status find_Some_iff)

lemma unique_at_most_one:
  "distinct (map pair_of rows) \<Longrightarrow> length (filter (has_key G U) rows) \<le> 1"
proof (induction rows)
  case Nil
  then show ?case by simp
next
  case (Cons r rows)
  show ?case
  proof (cases "has_key G U r")
    case True
    then have "pair_of r = (G, U)" by (simp add: pair_of_def has_key_def)
    with Cons.prems have "(G, U) \<notin> set (map pair_of rows)" by simp
    then have "filter (has_key G U) rows = []"
      by (auto simp: filter_empty_conv pair_of_def has_key_def image_iff)
    with True show ?thesis by simp
  next
    case False
    with Cons show ?thesis by simp
  qed
qed

lemma upsert_find:
  "\<exists>r. groupJoinRequest_findUnique (groupJoinRequest_upsert d G U i) G U = Some r \<and>
       jr_status r = PENDING"
proof (cases "find (has_key G U) (groupJoinRequests d)")
  case None
  then have "\<not> list_ex (has_key G U) (groupJoinRequests d)" by (simp add: find_None_list_ex)
  with None show ?thesis
    by (simp add: groupJoinRequest_findUnique_def groupJoinRequest_upsert_def find_app has_key_def)
next
  case (Some r)
  then have "groupJoinRequest_findUnique d G U = Some r" by (simp add: groupJoinRequest_findUnique_def)
  from upsert_existing[OF this] reopen_find[OF Some] show ?thesis
    by (simp add: groupJoinRequest_findUnique_def)
qed

lemma upsert_rows_of:
  assumes "unique_pairs d"
  shows "map jr_status (rows_of (groupJoinRequest_upsert d G U i) G U) = [PENDING]"
proof (cases "find (has_key G U) (groupJoinRequests d)")
  case (Some r)
  then have k: "has_key G U r" by (auto simp: find_Some_iff)
  from update_first_split[OF Some, of "\<lambda>x. x\<lparr>jr_status := PENDING\<rparr>"] obtain xs ys where
    s: "groupJoinRequests d = xs @ r # ys"
      "update_first (has_key G U) (\<lambda>x. x\<lparr>jr_status := PENDING\<rparr>) (groupJoinRequests d) =
         xs @ r\<lparr>jr_status := PENDING\<rparr> # ys"
      "filter (has_key G U) xs = []"
    by blast
  have "length (filter (has_key G U) (groupJoinRequests d)) \<le> 1"
    using assms unfolding unique_pairs_def by (rule unique_at_most_one)
  with s(1,3) k have "filter (has_key G U) ys = []" by simp
  moreover have "groupJoinRequest_findUnique d G U = Some r"
    using Some by (simp add: groupJoinRequest_findUnique_def)
  ultimately show ?thesis
    using upsert_existing s(2,3) k by (simp add: rows_of_def has_key_status)
next
  case None
  then have n: "\<not> list_ex (has_key G U) (groupJoinRequests d)" by (simp add: find_None_list_ex)
  then have "filter (has_key G U) (groupJoinRequests d) = []"
    by (auto simp: list_ex_iff filter_empty_conv)
  with n show ?thesis
    by (simp add: rows_of_def groupJoinRequest_upsert_def has_key_def)
qed

lemma upsert_frame:
  "groups (groupJoinRequest_upsert d G U i) = groups d"
  "groupMembers (groupJoinRequest_upsert d G U i) = groupMembers d"
  "users (groupJoinRequest_upsert d G U i) = users d"
  by (simp_all add: groupJoinRequest_upsert_def)

section \<open>A pending request blocks the next one\<close>

lemma pending_unique_row:
  assumes "unique_pairs d" and "pending d G U"
  shows "\<exists>r. groupJoinRequest_findUnique d G U = Some r \<and> jr_status r = PENDING \<and>
             rows_of d G U = [r]"
proof -
  from assms(2) obtain x where
    x: "x \<in> set (groupJoinRequests d)" "has_key G U x" "jr_status x = PENDING"
    by (auto simp: pending_def list_ex_iff)
  then have "find (has_key G U) (groupJoinRequests d) \<noteq> None"
    by (auto simp: find_None_iff)
  then obtain r where r: "find (has_key G U) (groupJoinRequests d) = Some r" by blast
  then have k: "has_key G U r" by (auto simp: find_Some_iff)
  from update_first_split[OF r, of id] obtain xs ys where
    s: "groupJoinRequests d = xs @ r # ys" "filter (has_key G U) xs = []"
    by blast
  have "length (filter (has_key G U) (groupJoinRequests d)) \<le> 1"
    using assms(1) unfolding unique_pairs_def by (rule unique_at_most_one)
  with s k have "filter (has_key G U) ys = []" by simp
  with s k have f: "filter (has_key G U) (groupJoinRequests d) = [r]" by simp
  from x have "x \<in> set (filter (has_key G U) (groupJoinRequests d))" by simp
  with f have "x = r" by simp
  with x(3) r f show ?thesis
    by (simp add: groupJoinRequest_findUnique_def rows_of_def)
qed

lemma POST_already_pending:
  assumes "signed_in e U" and "G \<noteq> []" and "no_throw e" and "group_exists d G"
    and "\<not> is_member d G U"
    and "groupJoinRequest_findUnique d G U = Some r" and "jr_status r = PENDING"
  shows "POST e d G = (json ''You have already requested to join this group.'' 400, d, [])"
proof -
  obtain u where u: "requester_of e = Some u" using signed_in_requester assms(1) by blast
  obtain grp where g: "group_findUnique d G = Some grp" using group_found assms(4) by blast
  have "POST_try e d u G U =
      (Inr (json ''You have already requested to join this group.'' 400), d, [])"
    using assms(3,6,7) g member_not_found[OF assms(5)] by (simp add: POST_try_def no_throw_def)
  then show ?thesis using POST_signed_in[OF assms(1,2) u] by simp
qed

section \<open>Accepted requests and memberships stay together\<close>

lemma consistentI:
  assumes "\<And>r. r \<in> set (groupJoinRequests d) \<Longrightarrow> jr_status r = ACCEPTED \<Longrightarrow>
             is_member d (jr_groupId r) (jr_userId r)"
    and "\<And>m. m \<in> set (groupMembers d) \<Longrightarrow> gm_role m = MEMBER \<Longrightarrow>
             accepted d (gm_group_id m) (gm_user_id m)"
  shows "consistent d"
  using assms by (simp add: consistent_def list_all_iff)

lemma consistent_rowD:
  "consistent d \<Longrightarrow> r \<in> set (groupJoinRequests d) \<Longrightarrow> jr_status r = ACCEPTED \<Longrightarrow>
   is_member d (jr_groupId r) (jr_userId r)"
  by (simp add: consistent_def list_all_iff)

lemma consistent_memberD:
  "consistent d \<Longrightarrow> m \<in> set (groupMembers d) \<Longrightarrow> gm_role m = MEMBER \<Longrightarrow>
   accepted d (gm_group_id m) (gm_user_id m)"
  by (simp add: consistent_def list_all_iff)

lemma is_member_iff:
  "is_member d G U = (\<exists>m \<in> set (groupMembers d). gm_group_id m = G \<and> gm_user_id m = U)"
  by (simp add: is_member_def list_ex_iff)

lemma accepted_iff:
  "accepted d G U =
     (\<exists>r \<in> set (groupJoinRequests d). has_key G U r \<and> jr_status r = ACCEPTED)"
  by (simp add: accepted_def list_ex_iff)

text \<open>Replacing one row that is not ACCEPTED and is of no member's pair, or is.\<close>

lemma consistent_replace:
  assumes c: "consistent d"
    and rows: "groupJoinRequests d = xs @ r # ys"
    and rows': "groupJoinRequests d' = xs @ r' # ys"
    and mem: "set (groupMembers d) \<subseteq> set (groupMembers d')"
    and new: "\<And>m. m \<in> set (groupMembers d') \<Longrightarrow> m \<notin> set (groupMembers d) \<Longrightarrow>
                gm_role m = MEMBER \<Longrightarrow>
                has_key (gm_group_id m) (gm_user_id m) r' \<and> jr_status r' = ACCEPTED"
    and r': "jr_status r' = ACCEPTED \<Longrightarrow> is_member d' (jr_groupId r') (jr_userId r')"
    and r: "jr_status r = ACCEPTED \<Longrightarrow> \<not> is_member d (jr_groupId r) (jr_userId r)"
  shows "consistent d'"
proof (rule consistentI)
  fix x assume x: "x \<in> set (groupJoinRequests d')" "jr_status x = ACCEPTED"
  show "is_member d' (jr_groupId x) (jr_userId x)"
  proof (cases "x = r'")
    case True
    with x r' show ?thesis by simp
  next
    case False
    with x rows rows' have "x \<in> set (groupJoinRequests d)" by auto
    from consistent_rowD[OF c this x(2)] mem show ?thesis
      by (auto simp: is_member_iff)
  qed
next
  fix m assume m: "m \<in> set (groupMembers d')" "gm_role m = MEMBER"
  show "accepted d' (gm_group_id m) (gm_user_id m)"
  proof (cases "m \<in> set (groupMembers d)")
    case True
    from consistent_memberD[OF c True m(2)] obtain x where
      x: "x \<in> set (groupJoinRequests d)" "has_key (gm_group_id m) (gm_user_id m) x"
        "jr_status x = ACCEPTED"
      by (auto simp: accepted_iff)
    have "x \<noteq> r"
    proof
      assume "x = r"
      with x r have "\<not> is_member d (gm_group_id m) (gm_user_id m)"
        by (simp add: has_key_def)
      with True show False by (auto simp: is_member_iff)
    qed
    with x(1) rows rows' have "x \<in> set (groupJoinRequests d')" by auto
    with x(2,3) show ?thesis by (auto simp: accepted_iff)
  next
    case False
    from new[OF m(1) False m(2)] rows' show ?thesis by (auto simp: accepted_iff)
  qed
qed

lemma upsert_consistent:
  assumes "consistent d" and "\<not> is_member d G U"
  shows "consistent (groupJoinRequest_upsert d G U i)"
proof (cases "find (has_key G U) (groupJoinRequests d)")
  case None
  then have n: "\<not> list_ex (has_key G U) (groupJoinRequests d)" by (simp add: find_None_list_ex)
  let ?d' = "groupJoinRequest_upsert d G U i"
  have rows: "groupJoinRequests ?d' = groupJoinRequests d @
      [\<lparr>jr_id = i, jr_groupId = G, jr_userId = U, jr_status = PENDING\<rparr>]"
    using n by (simp add: groupJoinRequest_upsert_def)
  have mem: "groupMembers ?d' = groupMembers d" by (simp add: upsert_frame)
  show ?thesis
  proof (rule consistentI)
    fix x assume "x \<in> set (groupJoinRequests ?d')" "jr_status x = ACCEPTED"
    with rows have "x \<in> set (groupJoinRequests d)" by auto
    from consistent_rowD[OF assms(1) this \<open>jr_status x = ACCEPTED\<close>] mem
    show "is_member ?d' (jr_groupId x) (jr_userId x)" by (simp add: is_member_def)
  next
    fix m assume "m \<in> set (groupMembers ?d')" "gm_role m = MEMBER"
    with mem consistent_memberD[OF assms(1)]
    have "accepted d (gm_group_id m) (gm_user_id m)" by simp
    with rows show "accepted ?d' (gm_group_id m) (gm_user_id m)"
      by (auto simp: accepted_iff)
  qed
next
  case (Some r)
  then have k: "has_key G U r" by (auto simp: find_Some_iff)
  have f: "groupJoinRequest_findUnique d G U = Some r"
    using Some by (simp add: groupJoinRequest_findUnique_def)
  from update_first_split[OF Some, of "\<lambda>x. x\<lparr>jr_status := PENDING\<rparr>"] upsert_existing[OF f, of i]
  obtain xs ys where
    s: "groupJoinRequests d = xs @ r # ys"
      "groupJoinRequests (groupJoinRequest_upsert d G U i) = xs @ r\<lparr>jr_status := PENDING\<rparr> # ys"
    by auto
  show ?thesis
  proof (rule consistent_replace[OF assms(1) s])
    show "set (groupMembers d) \<subseteq> set (groupMembers (groupJoinRequest_upsert d G U i))"
      by (simp add: upsert_frame)
  next
    fix m assume "m \<in> set (groupMembers (groupJoinRequest_upsert d G U i))" "m \<notin> set (groupMembers d)"
    then show "has_key (gm_group_id m) (gm_user_id m) (r\<lparr>jr_status := PENDING\<rparr>) \<and>
        jr_status (r\<lparr>jr_status := PENDING\<rparr>) = ACCEPTED"
      by (simp add: upsert_frame)
  next
    assume "jr_status (r\<lparr>jr_status := PENDING\<rparr>) = ACCEPTED"
    then show "is_member (groupJoinRequest_upsert d G U i)
        (jr_groupId (r\<lparr>jr_status := PENDING\<rparr>)) (jr_userId (r\<lparr>jr_status := PENDING\<rparr>))"
      by simp
  next
    from k assms(2) show "\<not> is_member d (jr_groupId r) (jr_userId r)"
      by (simp add: has_key_def)
  qed
qed

lemma POST_consistent: "consistent d \<Longrightarrow> consistent (fst (snd (POST e d G)))"
  using POST_db_cases_guarded[of e d G] upsert_consistent by auto

lemma resolve_consistent:
  assumes "consistent d"
  shows "consistent (snd (resolve f d G R a c))"
proof (cases "find (\<lambda>r. jr_id r = R \<and> jr_groupId r = G) (groupJoinRequests d)")
  case None
  with assms show ?thesis by (simp add: resolve_def)
next
  case (Some r)
  then have g: "jr_groupId r = G" by (auto simp: find_Some_iff)
  show ?thesis
  proof (cases "jr_status r = PENDING \<and> \<not> f")
    case False
    with Some assms show ?thesis by (auto simp: resolve_def)
  next
    case True
    show ?thesis
    proof (cases a)
      case Accept
      let ?d' = "snd (resolve f d G R Accept c)"
      from update_first_split[OF Some, of "\<lambda>r. r\<lparr>jr_status := ACCEPTED\<rparr>"] obtain xs ys where
        s: "groupJoinRequests d = xs @ r # ys"
          "set_status G R ACCEPTED (groupJoinRequests d) = xs @ r\<lparr>jr_status := ACCEPTED\<rparr> # ys"
        unfolding set_status_def by blast
      have rows': "groupJoinRequests ?d' = xs @ r\<lparr>jr_status := ACCEPTED\<rparr> # ys"
        using Some True s(2) by (simp add: resolve_def)
      have mem': "groupMembers ?d' = groupMembers d @
          [\<lparr>gm_group_id = G, gm_user_id = jr_userId r, gm_role = MEMBER\<rparr>]"
        using Some True by (simp add: resolve_def)
      have "consistent ?d'"
      proof (rule consistent_replace[OF assms s(1) rows'])
        show "set (groupMembers d) \<subseteq> set (groupMembers ?d')" using mem' by auto
      next
        fix m assume "m \<in> set (groupMembers ?d')" "m \<notin> set (groupMembers d)"
        with mem' have "m = \<lparr>gm_group_id = G, gm_user_id = jr_userId r, gm_role = MEMBER\<rparr>"
          by auto
        with g show "has_key (gm_group_id m) (gm_user_id m) (r\<lparr>jr_status := ACCEPTED\<rparr>) \<and>
            jr_status (r\<lparr>jr_status := ACCEPTED\<rparr>) = ACCEPTED"
          by (simp add: has_key_def)
      next
        from mem' g show "is_member ?d' (jr_groupId (r\<lparr>jr_status := ACCEPTED\<rparr>))
            (jr_userId (r\<lparr>jr_status := ACCEPTED\<rparr>))"
          by (simp add: is_member_iff)
      next
        assume "jr_status r = ACCEPTED"
        with True show "\<not> is_member d (jr_groupId r) (jr_userId r)" by simp
      qed
      with Accept show ?thesis by simp
    next
      case Decline
      let ?d' = "snd (resolve f d G R Decline c)"
      from update_first_split[OF Some, of "\<lambda>r. r\<lparr>jr_status := DECLINED\<rparr>"] obtain xs ys where
        s: "groupJoinRequests d = xs @ r # ys"
          "set_status G R DECLINED (groupJoinRequests d) = xs @ r\<lparr>jr_status := DECLINED\<rparr> # ys"
        unfolding set_status_def by blast
      have rows': "groupJoinRequests ?d' = xs @ r\<lparr>jr_status := DECLINED\<rparr> # ys"
        using Some True s(2) by (simp add: resolve_def)
      have mem': "groupMembers ?d' = groupMembers d"
        using Some True by (simp add: resolve_def)
      have "consistent ?d'"
      proof (rule consistent_replace[OF assms s(1) rows'])
        show "set (groupMembers d) \<subseteq> set (groupMembers ?d')" using mem' by auto
      next
        fix m assume "m \<in> set (groupMembers ?d')" "m \<notin> set (groupMembers d)"
        with mem' show "has_key (gm_group_id m) (gm_user_id m) (r\<lparr>jr_status := DECLINED\<rparr>) \<and>
            jr_status (r\<lparr>jr_status := DECLINED\<rparr>) = ACCEPTED"
          by simp
      next
        assume "jr_status (r\<lparr>jr_status := DECLINED\<rparr>) = ACCEPTED"
        then show "is_member ?d' (jr_groupId (r\<lparr>jr_status := DECLINED\<rparr>))
            (jr_userId (r\<lparr>jr_status := DECLINED\<rparr>))"
          by simp
      next
        assume "jr_status r = ACCEPTED"
        with True show "\<not> is_member d (jr_groupId r) (jr_userId r)" by simp
      qed
      with Decline show ?thesis by simp
    qed
  qed
qed

lemma apply_op_consistent: "consistent d \<Longrightarrow> consistent (apply_op d x)"
  by (cases x) (simp_all add: POST_consistent resolve_consistent)

lemma run_consistent: "consistent d \<Longrightarrow> consistent (run ops d)"
  unfolding run_def
  by (induction ops arbitrary: d) (simp_all add: apply_op_consistent)


section \<open>Notifications\<close>

lemma renders_notify_admin:
  "renders (notify_admin oc rn gn a) =
     (if has_email a then [Render (or_default (u_name (gm_user a)) ''Admin'') rn gn] else [])"
  by (cases "oc a")
     (simp_all add: notify_admin_def renders_def has_email_def truthy_def Let_def
       split: option.splits)

lemma renders_append: "renders (xs @ ys) = renders xs @ renders ys"
  by (simp add: renders_def)

lemma renders_notify_admins:
  "renders (notify_admins oc rn gn admins) =
     map (\<lambda>a. Render (or_default (u_name (gm_user a)) ''Admin'') rn gn)
       (filter has_email admins)"
  by (induction admins) (simp_all add: renders_append renders_notify_admin, simp add: renders_def)

lemma console_errors_notify_admin:
  "console_errors (notify_admin oc rn gn a) =
     (if has_email a \<and> oc a \<noteq> Delivered
      then [ConsoleError (''Failed to send email to '' @ the (u_email (gm_user a)) @ '':'')]
      else [])"
  by (cases "oc a")
     (simp_all add: notify_admin_def console_errors_def has_email_def truthy_def Let_def
       split: option.splits)

lemma console_errors_append: "console_errors (xs @ ys) = console_errors xs @ console_errors ys"
  by (simp add: console_errors_def)

lemma console_errors_notify_admins:
  "console_errors (notify_admins oc rn gn admins) =
     map (\<lambda>a. ConsoleError (''Failed to send email to '' @ the (u_email (gm_user a)) @ '':''))
       (filter (\<lambda>a. has_email a \<and> oc a \<noteq> Delivered) admins)"
  by (induction admins)
     (simp_all add: console_errors_append console_errors_notify_admin, simp add: console_errors_def)

lemma sends_notify_admin:
  "sends (notify_admin oc rn gn a) =
     (if has_email a \<and> oc a \<noteq> RenderThrows
      then [Send (the (u_email (gm_user a))) (''Nouvelle demande pour rejoindre '' @ gn)]
      else [])"
  by (cases "oc a")
     (simp_all add: notify_admin_def sends_def has_email_def truthy_def Let_def
       split: option.splits)

lemma sends_append: "sends (xs @ ys) = sends xs @ sends ys"
  by (simp add: sends_def)

lemma sends_notify_admins:
  "sends (notify_admins oc rn gn admins) =
     map (\<lambda>a. Send (the (u_email (gm_user a))) (''Nouvelle demande pour rejoindre '' @ gn))
       (filter (\<lambda>a. has_email a \<and> oc a \<noteq> RenderThrows) admins)"
  by (induction admins)
     (simp_all add: sends_append sends_notify_admin, simp add: sends_def)

text \<open>The events of one admin with an email address, spelled out by outcome.\<close>

lemma notify_admin_events:
  "notify_admin oc rn gn a =
     (if has_email a
      then Render (or_default (u_name (gm_user a)) ''Admin'') rn gn #
           (if oc a = RenderThrows then []
            else [Send (the (u_email (gm_user a))) (''Nouvelle demande pour rejoindre '' @ gn)]) @
           (if oc a = Delivered then []
            else [ConsoleError
                    (''Failed to send email to '' @ the (u_email (gm_user a)) @ '':'')])
      else [])"
  by (cases "oc a")
     (simp_all add: notify_admin_def has_email_def truthy_def Let_def split: option.splits)

lemma notify_admins_events:
  "notify_admins oc rn gn admins =
     concat
       (map (\<lambda>a. Render (or_default (u_name (gm_user a)) ''Admin'') rn gn #
                  (if oc a = RenderThrows then []
                   else [Send (the (u_email (gm_user a)))
                           (''Nouvelle demande pour rejoindre '' @ gn)]) @
                  (if oc a = Delivered then []
                   else [ConsoleError
                           (''Failed to send email to '' @ the (u_email (gm_user a)) @ '':'')]))
          (filter has_email admins))"
proof (induction admins)
  case Nil
  show ?case by simp
next
  case (Cons a admins)
  show ?case
  proof (cases "has_email a")
    case True
    with Cons show ?thesis by (simp add: notify_admin_events)
  next
    case False
    with Cons show ?thesis by (simp add: notify_admin_events)
  qed
qed

lemma env_notify_frame:
  "requester_of (e\<lparr>notify := oc\<rparr>) = requester_of e"
  "signed_in (e\<lparr>notify := oc\<rparr>) U = signed_in e U"
  "no_throw (e\<lparr>notify := oc\<rparr>) = no_throw e"
  by (simp_all add: requester_of_def signed_in_def no_throw_def)

lemma POST_try_renders:
  assumes "renders (snd (snd (POST_try e d u G U))) \<noteq> []"
  shows "\<not> prisma_throws e RequestUpsert \<and>
     POST_try e d u G U =
       (Inr (json ''Join request sent successfully.'' 201),
        groupJoinRequest_upsert d G U (created_id e), snd (snd (POST_try e d u G U)))"
  using assms
  by (auto simp: POST_try_def renders_def split: option.splits if_splits)

lemma POST_renders:
  assumes "renders (snd (snd (POST e d G))) \<noteq> []"
  shows "\<not> prisma_throws e RequestUpsert \<and>
     fst (POST e d G) = json ''Join request sent successfully.'' 201 \<and>
     (\<exists>U. fst (snd (POST e d G)) = groupJoinRequest_upsert d G U (created_id e))"
proof -
  from assms obtain u where u: "requester_of e = Some u" "truthy (su_id u)" "G \<noteq> []"
    by (auto simp: POST_def requester_of_def renders_def split: option.splits if_splits)
  then have P: "POST e d G =
     (case POST_try e d u G (the (su_id u)) of
        (Inl error, d', evs) \<Rightarrow>
          (json ''An internal error occurred.'' 500, d',
           evs @ [ConsoleError ''Error processing join request:''])
      | (Inr res, d', evs) \<Rightarrow> (res, d', evs))"
    by (auto simp: POST_def requester_of_def split: option.splits)
  obtain x d' evs where t: "POST_try e d u G (the (su_id u)) = (x, d', evs)"
    by (cases "POST_try e d u G (the (su_id u))") auto
  have "renders evs \<noteq> []"
    using assms P t by (cases x) (simp_all add: renders_append, simp add: renders_def)
  with t POST_try_renders[of e d u G "the (su_id u)"]
  have n: "\<not> prisma_throws e RequestUpsert" and
    x: "x = Inr (json ''Join request sent successfully.'' 201)" and
    d': "d' = groupJoinRequest_upsert d G (the (su_id u)) (created_id e)"
    by simp_all
  from P t x d' n show ?thesis by auto
qed

lemma notify_admins_append:
  "notify_admins oc rn gn (xs @ ys) = notify_admins oc rn gn xs @ notify_admins oc rn gn ys"
  by (induction xs) simp_all

lemma notify_admins_skip:
  "u_email (gm_user a) = None \<Longrightarrow>
   notify_admins oc rn gn (xs @ a # ys) = notify_admins oc rn gn (xs @ ys)"
  by (simp add: notify_admins_append notify_admin_def)

lemma POST_upsert_throws:
  assumes "signed_in e U" and "G \<noteq> []" and "group_exists d G" and "\<not> is_member d G U"
    and "\<not> pending d G U"
    and "\<not> prisma_throws e GroupFindUnique" and "\<not> prisma_throws e MemberFindUnique"
    and "\<not> prisma_throws e RequestFindUnique" and "prisma_throws e RequestUpsert"
  shows "POST e d G =
     (json ''An internal error occurred.'' 500, d,
      [ConsoleError ''Error processing join request:''])"
proof -
  obtain u where u: "requester_of e = Some u" using signed_in_requester assms(1) by blast
  obtain grp where g: "group_findUnique d G = Some grp" using group_found assms(3) by blast
  have "POST_try e d u G U = (Inl (PrismaError RequestUpsert), d, [])"
    using assms(6-9) g member_not_found[OF assms(4)] not_pending_check[OF assms(5)]
    by (simp add: POST_try_def)
  then show ?thesis using POST_signed_in[OF assms(1,2) u] by simp
qed

section \<open>Resolving and the pending list\<close>

lemma set_status_find:
  "find (\<lambda>r. jr_id r = R \<and> jr_groupId r = G) rows = Some r \<Longrightarrow>
   find (\<lambda>r. jr_id r = R \<and> jr_groupId r = G) (set_status G R st rows) = Some (r\<lparr>jr_status := st\<rparr>)"
  unfolding set_status_def by (rule update_first_find) (auto simp: find_Some_iff)

lemma filter_distinct_split:
  "distinct (map f (xs @ q # ys)) \<Longrightarrow> filter (\<lambda>x. f x \<noteq> f q) (xs @ q # ys) = xs @ ys"
proof -
  assume d: "distinct (map f (xs @ q # ys))"
  then have "\<forall>x \<in> set xs. f x \<noteq> f q" and "\<forall>y \<in> set ys. f y \<noteq> f q"
    by (auto simp: image_iff)
  then have "filter (\<lambda>x. f x \<noteq> f q) xs = xs" and "filter (\<lambda>x. f x \<noteq> f q) ys = ys"
    by (simp_all add: filter_id_conv)
  then show ?thesis by simp
qed

lemma ex_post:
  "POST (ex_env never) (ex_db []) ''bookclub'' =
     (json ''Join request sent successfully.'' 201, ex_db [ex_row PENDING],
      [Render ''Alice'' ''Bob'' ''BookClub'',
       Send ''alice@x.com'' ''Nouvelle demande pour rejoindre BookClub'',
       ConsoleError ''Failed to send email to alice@x.com:'',
       Render ''Admin'' ''Bob'' ''BookClub'',
       Send ''dave@x.com'' ''Nouvelle demande pour rejoindre BookClub''])"
  by (simp add: POST_def POST_try_def ex_env_def ex_db_def ex_bob_def truthy_def
        group_findUnique_def groupMember_findUnique_def ex_admin_def
        groupJoinRequest_findUnique_def has_key_def ex_row_def never_def
        groupJoinRequest_upsert_def with_user_def ex_users_def notify_admin_def or_default_def json_def)

section \<open>The claims\<close>

text \<open>
  C3. Whenever a membership row for (G, U) exists, create(G, U) answers 400 ``You are
  already a member of this group.'', whatever join requests the pair has: the request
  table is not looked at, and nothing is written or sent. G is an existing group, U is
  the signed-in user, and the two queries that come first do not throw.
\<close>

theorem create_already_member:
  assumes "signed_in e U" and "G \<noteq> []"
    and "\<not> prisma_throws e GroupFindUnique" and "\<not> prisma_throws e MemberFindUnique"
    and "group_exists d G" and "is_member d G U"
  shows "POST e d G = (json ''You are already a member of this group.'' 400, d, [])"
proof -
  obtain u where u: "requester_of e = Some u" using signed_in_requester assms(1) by blast
  obtain grp where g: "group_findUnique d G = Some grp" using group_found assms(5) by blast
  obtain m where m: "groupMember_findUnique d G U = Some m" using member_found assms(6) by blast
  have "POST_try e d u G U = (Inr (json ''You are already a member of this group.'' 400), d, [])"
    using assms(3,4) g m by (simp add: POST_try_def)
  then show ?thesis using POST_signed_in[OF assms(1,2) u] by simp
qed

theorem create_already_member_witness:
  "signed_in (ex_env never) ''bob'' \<and> group_exists ex_member_db ''bookclub'' \<and>
   is_member ex_member_db ''bookclub'' ''bob'' \<and>
   jr_status (hd (groupJoinRequests ex_member_db)) = ACCEPTED \<and>
   POST (ex_env never) ex_member_db ''bookclub'' =
     (json ''You are already a member of this group.'' 400, ex_member_db, [])"
proof -
  have h: "signed_in (ex_env never) ''bob''" "''bookclub'' \<noteq> []"
    "\<not> prisma_throws (ex_env never) GroupFindUnique"
    "\<not> prisma_throws (ex_env never) MemberFindUnique"
    "group_exists ex_member_db ''bookclub''" "is_member ex_member_db ''bookclub'' ''bob''"
    by (simp_all add: signed_in_def ex_env_def requester_of_def ex_bob_def group_exists_def
        ex_db_def ex_member_db_def is_member_def ex_admin_def never_def)
  have "jr_status (hd (groupJoinRequests ex_member_db)) = ACCEPTED"
    by (simp add: ex_member_db_def ex_db_def ex_row_def)
  with h create_already_member[OF h] show ?thesis by simp
qed

text \<open>
  C4. When the request of (G, U) found in the store is DECLINED and U is not a member,
  create(G, U) answers 201 and reopens that very row: the table after the call is the
  table before it with the status of that one row set to PENDING and every other row as
  it was, so the ids are the same ones in the same order (no row is added), and looking
  the pair up gives the old row with its status changed.
\<close>

theorem create_reopens_declined:
  assumes "signed_in e U" and "G \<noteq> []" and "no_throw e" and "group_exists d G"
    and "\<not> is_member d G U"
    and "groupJoinRequest_findUnique d G U = Some r" and "jr_status r = DECLINED"
  shows "fst (POST e d G) = json ''Join request sent successfully.'' 201 \<and>
     (\<exists>xs ys. groupJoinRequests d = xs @ r # ys \<and>
        groupJoinRequests (fst (snd (POST e d G))) = xs @ r\<lparr>jr_status := PENDING\<rparr> # ys) \<and>
     map jr_id (groupJoinRequests (fst (snd (POST e d G)))) = map jr_id (groupJoinRequests d) \<and>
     groupJoinRequest_findUnique (fst (snd (POST e d G))) G U = Some (r\<lparr>jr_status := PENDING\<rparr>)"
proof -
  obtain u where u: "requester_of e = Some u" using signed_in_requester assms(1) by blast
  obtain grp where g: "group_findUnique d G = Some grp" using group_found assms(4) by blast
  have c: "(case groupJoinRequest_findUnique d G U of None \<Rightarrow> False
          | Some r \<Rightarrow> jr_status r = PENDING) = False"
    using assms(6,7) by simp
  note p = POST_success[OF assms(1,2) u assms(3) g assms(5) c]
  have f: "find (has_key G U) (groupJoinRequests d) = Some r"
    using assms(6) by (simp add: groupJoinRequest_findUnique_def)
  have rows: "groupJoinRequests (fst (snd (POST e d G))) =
       update_first (has_key G U) (\<lambda>x. x\<lparr>jr_status := PENDING\<rparr>) (groupJoinRequests d)"
    using p upsert_existing[OF assms(6)] by simp
  have split: "\<exists>xs ys. groupJoinRequests d = xs @ r # ys \<and>
        groupJoinRequests (fst (snd (POST e d G))) = xs @ r\<lparr>jr_status := PENDING\<rparr> # ys"
    using update_first_split[OF f, of "\<lambda>x. x\<lparr>jr_status := PENDING\<rparr>"] rows by auto
  have ids: "map jr_id (groupJoinRequests (fst (snd (POST e d G)))) =
      map jr_id (groupJoinRequests d)"
    using rows by (simp add: update_first_map)
  have found: "groupJoinRequest_findUnique (fst (snd (POST e d G))) G U =
      Some (r\<lparr>jr_status := PENDING\<rparr>)"
    using rows reopen_find[OF f] by (simp add: groupJoinRequest_findUnique_def)
  show ?thesis using p split ids found by simp
qed

theorem create_reopens_declined_witness:
  "signed_in (ex_env never) ''bob'' \<and> no_throw (ex_env never) \<and>
   group_exists (ex_db [ex_row DECLINED]) ''bookclub'' \<and>
   \<not> is_member (ex_db [ex_row DECLINED]) ''bookclub'' ''bob'' \<and>
   groupJoinRequest_findUnique (ex_db [ex_row DECLINED]) ''bookclub'' ''bob'' = Some (ex_row DECLINED) \<and>
   fst (POST (ex_env never) (ex_db [ex_row DECLINED]) ''bookclub'') =
     json ''Join request sent successfully.'' 201 \<and>
   groupJoinRequests (fst (snd (POST (ex_env never) (ex_db [ex_row DECLINED]) ''bookclub''))) =
     [ex_row PENDING]"
proof -
  have h: "signed_in (ex_env never) ''bob''" "''bookclub'' \<noteq> []"
    "no_throw (ex_env never)"
    "group_exists (ex_db [ex_row DECLINED]) ''bookclub''"
    "\<not> is_member (ex_db [ex_row DECLINED]) ''bookclub'' ''bob''"
    "groupJoinRequest_findUnique (ex_db [ex_row DECLINED]) ''bookclub'' ''bob'' = Some (ex_row DECLINED)"
    "jr_status (ex_row DECLINED) = DECLINED"
    by (simp_all add: signed_in_def ex_env_def requester_of_def ex_bob_def group_exists_def
        ex_db_def is_member_def ex_admin_def no_throw_def groupJoinRequest_findUnique_def
        has_key_def ex_row_def never_def)
  note t = create_reopens_declined[OF h]
  from t obtain xs ys where
    s: "groupJoinRequests (ex_db [ex_row DECLINED]) = xs @ ex_row DECLINED # ys"
      "groupJoinRequests (fst (snd (POST (ex_env never) (ex_db [ex_row DECLINED]) ''bookclub''))) =
         xs @ (ex_row DECLINED)\<lparr>jr_status := PENDING\<rparr> # ys"
    by blast
  from s(1) have "xs = [] \<and> ys = []" by (cases xs) (simp_all add: ex_db_def)
  with s(2) have
    "groupJoinRequests (fst (snd (POST (ex_env never) (ex_db [ex_row DECLINED]) ''bookclub''))) =
       [ex_row PENDING]"
    by (simp add: ex_row_def)
  with h t show ?thesis by simp
qed

text \<open>
  C1. From a store in which no two join requests share their (group, user) pair, every
  sequence of create and resolve operations leads to a store with the same property, so
  every pair has at most one join-request row: the upsert updates the row of the pair
  when there is one and adds a row only when there is none.
\<close>

theorem join_request_pair_unique:
  assumes "unique_pairs d"
  shows "unique_pairs (run ops d) \<and> length (rows_of (run ops d) G U) \<le> 1"
proof -
  have u: "unique_pairs (run ops d)" using assms by (rule run_unique)
  then have "length (rows_of (run ops d) G U) \<le> 1"
    unfolding unique_pairs_def rows_of_def by (rule unique_at_most_one)
  with u show ?thesis by simp
qed

theorem join_request_pair_unique_witness:
  "unique_pairs (ex_db []) \<and> unique_pairs (run ex_ops (ex_db [])) \<and>
   length (rows_of (run ex_ops (ex_db [])) ''bookclub'' ''bob'') \<le> 1"
proof -
  have h: "unique_pairs (ex_db [])" by (simp add: unique_pairs_def ex_db_def)
  with join_request_pair_unique[OF h, of ex_ops "''bookclub''" "''bob''"] show ?thesis by simp
qed

text \<open>
  C9. When create answers with one of its five failure responses (401 Unauthorized, 400
  missing group id, 404 group not found, 400 already a member, 400 already requested),
  the store after the call is the store before it, and nothing was rendered, sent or
  logged.
\<close>

theorem create_failure_no_write:
  assumes "fst (POST e d G) \<in>
      {json ''Unauthorized'' 401, json ''Group ID is required.'' 400,
       json ''Group not found.'' 404, json ''You are already a member of this group.'' 400,
       json ''You have already requested to join this group.'' 400}"
  shows "fst (snd (POST e d G)) = d \<and> snd (snd (POST e d G)) = []"
proof -
  obtain res d' evs where p: "POST e d G = (res, d', evs)" by (cases "POST e d G") auto
  with assms have "status res \<in> {400, 401, 404}" by (auto simp: json_def)
  with p show ?thesis
  by (auto simp: POST_def POST_try_def json_def
      split: option.splits if_splits prod.splits sum.splits)
qed

theorem create_failure_no_write_witness:
  "fst (POST (ex_env never) (ex_db [ex_row PENDING]) ''bookclub'') \<in>
      {json ''Unauthorized'' 401, json ''Group ID is required.'' 400,
       json ''Group not found.'' 404, json ''You are already a member of this group.'' 400,
       json ''You have already requested to join this group.'' 400} \<and>
   fst (snd  (POST (ex_env never) (ex_db [ex_row PENDING]) ''bookclub'')) = ex_db [ex_row PENDING]"
proof -
  have h: "fst (POST (ex_env never) (ex_db [ex_row PENDING]) ''bookclub'') \<in>
      {json ''Unauthorized'' 401, json ''Group ID is required.'' 400,
       json ''Group not found.'' 404, json ''You are already a member of this group.'' 400,
       json ''You have already requested to join this group.'' 400}"
    by (simp add: POST_def POST_try_def ex_env_def ex_db_def ex_bob_def truthy_def
        group_findUnique_def groupMember_findUnique_def ex_admin_def
        groupJoinRequest_findUnique_def has_key_def ex_row_def never_def)
  with create_failure_no_write[OF h] show ?thesis by simp
qed

text \<open>
  C2, as it holds. For an existing group G and the signed-in user U with no membership
  of (G, U), in a store whose pairs are unique and with no query throwing: after two
  calls of create the pair has exactly one row, which is PENDING, and the second call
  is answered 400 ``You have already requested to join this group.'' and changes
  nothing. The first call is answered 201 when the pair had no pending request before
  it, and with the same 400 when it had one.
\<close>

theorem create_twice:
  assumes "signed_in e1 U" and "signed_in e2 U" and "G \<noteq> []"
    and "no_throw e1" and "no_throw e2"
    and "group_exists d G" and "\<not> is_member d G U" and "unique_pairs d"
  shows "fst (POST e1 d G) =
       (if pending d G U then json ''You have already requested to join this group.'' 400
        else json ''Join request sent successfully.'' 201) \<and>
     POST e2 (fst (snd (POST e1 d G))) G =
       (json ''You have already requested to join this group.'' 400,
        fst (snd (POST e1 d G)), []) \<and>
     map jr_status (rows_of (fst (snd (POST e1 d G))) G U) = [PENDING]"
proof (cases "pending d G U")
  case True
  from pending_unique_row[OF assms(8) True] obtain r where
    r: "groupJoinRequest_findUnique d G U = Some r" "jr_status r = PENDING" "rows_of d G U = [r]"
    by blast
  have p1: "POST e1 d G = (json ''You have already requested to join this group.'' 400, d, [])"
    using POST_already_pending[OF assms(1,3,4,6,7) r(1,2)] .
  have p2: "POST e2 d G = (json ''You have already requested to join this group.'' 400, d, [])"
    using POST_already_pending[OF assms(2,3,5,6,7) r(1,2)] .
  show ?thesis using True p1 p2 r by simp
next
  case False
  obtain u1 where u1: "requester_of e1 = Some u1" using signed_in_requester assms(1) by blast
  obtain grp where g: "group_findUnique d G = Some grp" using group_found assms(6) by blast
  let ?d1 = "groupJoinRequest_upsert d G U (created_id e1)"
  have p1: "POST e1 d G = (json ''Join request sent successfully.'' 201, ?d1,
      notify_admins (notify e1) (or_default (su_name u1) ''Un utilisateur'')
       (g_name grp) (g_members grp))"
    using POST_success[OF assms(1,3) u1 assms(4) g assms(7) not_pending_check[OF False]] .
  have ge: "group_exists ?d1 G" using assms(6) by (simp add: group_exists_def upsert_frame)
  have nm: "\<not> is_member ?d1 G U" using assms(7) by (simp add: is_member_def upsert_frame)
  obtain r where r: "groupJoinRequest_findUnique ?d1 G U = Some r" "jr_status r = PENDING"
    using upsert_find by blast
  have p2: "POST e2 ?d1 G =
      (json ''You have already requested to join this group.'' 400, ?d1, [])"
    using POST_already_pending[OF assms(2,3,5) ge nm r] .
  show ?thesis using False p1 p2 upsert_rows_of[OF assms(8)] by simp
qed

theorem create_twice_witness:
  "signed_in (ex_env never) ''bob'' \<and> no_throw (ex_env never) \<and>
   group_exists (ex_db []) ''bookclub'' \<and> \<not> is_member (ex_db []) ''bookclub'' ''bob'' \<and>
   unique_pairs (ex_db []) \<and>
   fst (POST (ex_env never) (ex_db []) ''bookclub'') =
     json ''Join request sent successfully.'' 201 \<and>
   POST (ex_env never) (fst (snd (POST (ex_env never) (ex_db []) ''bookclub''))) ''bookclub'' =
     (json ''You have already requested to join this group.'' 400,
      fst (snd (POST (ex_env never) (ex_db []) ''bookclub'')), []) \<and>
   map jr_status (rows_of (fst (snd (POST (ex_env never) (ex_db []) ''bookclub'')))
     ''bookclub'' ''bob'') = [PENDING]"
proof -
  have h: "signed_in (ex_env never) ''bob''" "signed_in (ex_env never) ''bob''"
    "''bookclub'' \<noteq> []" "no_throw (ex_env never)" "no_throw (ex_env never)"
    "group_exists (ex_db []) ''bookclub''" "\<not> is_member (ex_db []) ''bookclub'' ''bob''"
    "unique_pairs (ex_db [])"
    by (simp_all add: signed_in_def ex_env_def requester_of_def ex_bob_def group_exists_def
        ex_db_def is_member_def ex_admin_def no_throw_def never_def unique_pairs_def)
  have n: "\<not> pending (ex_db []) ''bookclub'' ''bob''"
    by (simp add: pending_def ex_db_def)
  with create_twice[OF h] h show ?thesis by simp
qed


text \<open>
  C2, as stated, asks only that there be no membership. With a pending request of Bob
  already in the store, the first of the two calls is itself answered 400.
\<close>

theorem create_twice_counterexample:
  "\<not> is_member (ex_db [ex_row PENDING]) ''bookclub'' ''bob'' \<and>
   signed_in (ex_env never) ''bob'' \<and> no_throw (ex_env never) \<and>
   group_exists (ex_db [ex_row PENDING]) ''bookclub'' \<and>
   unique_pairs (ex_db [ex_row PENDING]) \<and>
   POST (ex_env never) (ex_db [ex_row PENDING]) ''bookclub'' =
     (json ''You have already requested to join this group.'' 400, ex_db [ex_row PENDING], []) \<and>
   status (fst (POST (ex_env never) (ex_db [ex_row PENDING]) ''bookclub'')) \<noteq> 201"
  by (simp add: POST_def POST_try_def ex_env_def ex_db_def ex_bob_def truthy_def
        group_findUnique_def groupMember_findUnique_def ex_admin_def
        groupJoinRequest_findUnique_def has_key_def ex_row_def never_def
        signed_in_def requester_of_def group_exists_def is_member_def no_throw_def
        unique_pairs_def json_def)

text \<open>
  C5. When create passes its guards (signed-in user U, existing group, no membership, no
  pending request, no query throwing), then whatever the outcome \<open>oc\<close> of rendering and
  sending is for each admin: the answer is 201 and the store is the upserted one; the
  template is rendered once for every admin with an email address, in the admins' order;
  a mail is handed to the sender for every such admin whose rendering did not throw,
  whatever happened to the admins before; and each admin whose rendering or sending
  threw appears only as one logged line. The whole sequence of events is, admin by
  admin: the rendering, then the sending unless the rendering threw, then the logged
  line unless the mail was delivered.
\<close>

theorem create_notifications_independent:
  assumes "signed_in e U" and "requester_of e = Some u" and "G \<noteq> []" and "no_throw e"
    and "group_findUnique d G = Some grp" and "\<not> is_member d G U" and "\<not> pending d G U"
  shows "fst (POST (e\<lparr>notify := oc\<rparr>) d G) = json ''Join request sent successfully.'' 201 \<and>
     fst (snd (POST (e\<lparr>notify := oc\<rparr>) d G)) = groupJoinRequest_upsert d G U (created_id e) \<and>
     renders (snd (snd (POST (e\<lparr>notify := oc\<rparr>) d G))) =
       map (\<lambda>a. Render (or_default (u_name (gm_user a)) ''Admin'')
                  (or_default (su_name u) ''Un utilisateur'') (g_name grp))
         (filter has_email (g_members grp)) \<and>
     console_errors (snd (snd (POST (e\<lparr>notify := oc\<rparr>) d G))) =
       map (\<lambda>a. ConsoleError (''Failed to send email to '' @ the (u_email (gm_user a)) @ '':''))
         (filter (\<lambda>a. has_email a \<and> oc a \<noteq> Delivered) (g_members grp)) \<and>
     sends (snd (snd (POST (e\<lparr>notify := oc\<rparr>) d G))) =
       map (\<lambda>a. Send (the (u_email (gm_user a)))
                  (''Nouvelle demande pour rejoindre '' @ g_name grp))
         (filter (\<lambda>a. has_email a \<and> oc a \<noteq> RenderThrows) (g_members grp)) \<and>
     snd (snd (POST (e\<lparr>notify := oc\<rparr>) d G)) =
       concat
         (map (\<lambda>a. Render (or_default (u_name (gm_user a)) ''Admin'')
                      (or_default (su_name u) ''Un utilisateur'') (g_name grp) #
                    (if oc a = RenderThrows then []
                     else [Send (the (u_email (gm_user a)))
                             (''Nouvelle demande pour rejoindre '' @ g_name grp)]) @
                    (if oc a = Delivered then []
                     else [ConsoleError
                             (''Failed to send email to '' @ the (u_email (gm_user a)) @
                              '':'')]))
            (filter has_email (g_members grp)))"
proof -
  have s: "signed_in (e\<lparr>notify := oc\<rparr>) U" and r: "requester_of (e\<lparr>notify := oc\<rparr>) = Some u"
    and n: "no_throw (e\<lparr>notify := oc\<rparr>)"
    using assms(1,2,4) by (simp_all add: env_notify_frame)
  have p: "POST (e\<lparr>notify := oc\<rparr>) d G =
    (json ''Join request sent successfully.'' 201,
     groupJoinRequest_upsert d G U (created_id e),
     notify_admins oc (or_default (su_name u) ''Un utilisateur'') (g_name grp) (g_members grp))"
    using POST_success[OF s assms(3) r n assms(5,6) not_pending_check[OF assms(7)]] by simp
  have a: "fst (POST (e\<lparr>notify := oc\<rparr>) d G) = json ''Join request sent successfully.'' 201"
    and b: "fst (snd (POST (e\<lparr>notify := oc\<rparr>) d G)) =
      groupJoinRequest_upsert d G U (created_id e)"
    and evs: "snd (snd (POST (e\<lparr>notify := oc\<rparr>) d G)) =
      notify_admins oc (or_default (su_name u) ''Un utilisateur'') (g_name grp) (g_members grp)"
    using p by simp_all
  show ?thesis
    unfolding a b evs
    using renders_notify_admins console_errors_notify_admins sends_notify_admins
      notify_admins_events
    by blast
qed

theorem create_notifications_independent_witness:
  "signed_in (ex_env never) ''bob'' \<and> requester_of (ex_env never) = Some ex_bob \<and>
   no_throw (ex_env never) \<and> group_findUnique (ex_db []) ''bookclub'' = Some ex_group \<and>
   \<not> is_member (ex_db []) ''bookclub'' ''bob'' \<and> \<not> pending (ex_db []) ''bookclub'' ''bob'' \<and>
   fst (POST ((ex_env never)\<lparr>notify := ex_transport_error\<rparr>) (ex_db []) ''bookclub'') =
     json ''Join request sent successfully.'' 201 \<and>
   snd (snd (POST ((ex_env never)\<lparr>notify := ex_transport_error\<rparr>) (ex_db []) ''bookclub'')) =
     [Render ''Alice'' ''Bob'' ''BookClub'',
      Send ''alice@x.com'' ''Nouvelle demande pour rejoindre BookClub'',
      ConsoleError ''Failed to send email to alice@x.com:'',
      Render ''Admin'' ''Bob'' ''BookClub'',
      Send ''dave@x.com'' ''Nouvelle demande pour rejoindre BookClub''] \<and>
   sends (snd (snd (POST ((ex_env never)\<lparr>notify := ex_transport_error\<rparr>) (ex_db [])
                      ''bookclub''))) =
     [Send ''alice@x.com'' ''Nouvelle demande pour rejoindre BookClub'',
      Send ''dave@x.com'' ''Nouvelle demande pour rejoindre BookClub'']"
proof -
  have h: "signed_in (ex_env never) ''bob''" "requester_of (ex_env never) = Some ex_bob"
    "''bookclub'' \<noteq> []" "no_throw (ex_env never)"
    "group_findUnique (ex_db []) ''bookclub'' = Some ex_group"
    "\<not> is_member (ex_db []) ''bookclub'' ''bob''" "\<not> pending (ex_db []) ''bookclub'' ''bob''"
    by (simp_all add: signed_in_def ex_env_def requester_of_def ex_bob_def group_findUnique_def
        ex_group_def ex_db_def is_member_def ex_admin_def no_throw_def never_def pending_def)
  note t = create_notifications_independent[OF h, of ex_transport_error]
  have m: "concat
         (map (\<lambda>a. Render (or_default (u_name (gm_user a)) ''Admin'')
                      (or_default (su_name ex_bob) ''Un utilisateur'') (g_name ex_group) #
                    (if ex_transport_error a = RenderThrows then []
                     else [Send (the (u_email (gm_user a)))
                             (''Nouvelle demande pour rejoindre '' @ g_name ex_group)]) @
                    (if ex_transport_error a = Delivered then []
                     else [ConsoleError
                             (''Failed to send email to '' @ the (u_email (gm_user a)) @
                              '':'')]))
            (filter has_email (g_members ex_group))) =
     [Render ''Alice'' ''Bob'' ''BookClub'',
      Send ''alice@x.com'' ''Nouvelle demande pour rejoindre BookClub'',
      ConsoleError ''Failed to send email to alice@x.com:'',
      Render ''Admin'' ''Bob'' ''BookClub'',
      Send ''dave@x.com'' ''Nouvelle demande pour rejoindre BookClub'']"
    by (simp add: ex_group_def ex_admin_def with_user_def ex_db_def ex_users_def has_email_def
        truthy_def or_default_def ex_bob_def ex_transport_error_def)
  have evs: "snd (snd (POST ((ex_env never)\<lparr>notify := ex_transport_error\<rparr>) (ex_db [])
        ''bookclub'')) =
     [Render ''Alice'' ''Bob'' ''BookClub'',
      Send ''alice@x.com'' ''Nouvelle demande pour rejoindre BookClub'',
      ConsoleError ''Failed to send email to alice@x.com:'',
      Render ''Admin'' ''Bob'' ''BookClub'',
      Send ''dave@x.com'' ''Nouvelle demande pour rejoindre BookClub'']"
    using t m by simp
  have sd: "sends (snd (snd (POST ((ex_env never)\<lparr>notify := ex_transport_error\<rparr>) (ex_db [])
        ''bookclub''))) =
     [Send ''alice@x.com'' ''Nouvelle demande pour rejoindre BookClub'',
      Send ''dave@x.com'' ''Nouvelle demande pour rejoindre BookClub'']"
    unfolding evs by (simp add: sends_def)
  from t h evs sd show ?thesis by simp
qed

text \<open>
  C6. When no join request with id R in group G is PENDING (there is none with that id
  in that group, or it is ACCEPTED or DECLINED), resolve(G, R, a) fails with NotFound and
  leaves the store as it was, for accept and for decline.
\<close>

theorem resolve_not_pending_not_found:
  assumes "\<forall>r \<in> set (groupJoinRequests d). jr_id r = R \<and> jr_groupId r = G \<longrightarrow> jr_status r \<noteq> PENDING"
  shows "resolve f d G R a c = (Inl NotFound, d)"
proof (cases "find (\<lambda>r. jr_id r = R \<and> jr_groupId r = G) (groupJoinRequests d)")
  case None
  then show ?thesis by (simp add: resolve_def)
next
  case (Some r)
  then have "r \<in> set (groupJoinRequests d)" and "jr_id r = R \<and> jr_groupId r = G"
    by (auto simp: find_Some_iff)
  with assms have "jr_status r \<noteq> PENDING" by blast
  with Some show ?thesis by (simp add: resolve_def)
qed

theorem resolve_not_pending_not_found_witness:
  "groupJoinRequests ex_member_db = [ex_row ACCEPTED] \<and>
   jr_id (ex_row ACCEPTED) = ''r1'' \<and> jr_groupId (ex_row ACCEPTED) = ''bookclub'' \<and>
   resolve False ex_member_db ''bookclub'' ''r1'' Accept ''alice'' = (Inl NotFound, ex_member_db)"
proof -
  have h: "\<forall>r \<in> set (groupJoinRequests ex_member_db).
      jr_id r = ''r1'' \<and> jr_groupId r = ''bookclub'' \<longrightarrow> jr_status r \<noteq> PENDING"
    by (simp add: ex_member_db_def ex_db_def ex_row_def)
  have "groupJoinRequests ex_member_db = [ex_row ACCEPTED]"
    by (simp add: ex_member_db_def ex_db_def)
  with resolve_not_pending_not_found[OF h] show ?thesis by (simp add: ex_row_def)
qed

text \<open>
  C7. For the PENDING request R of user U in group G, accepting has two outcomes only:
  the transaction fails and the store is untouched, or it succeeds, and then the row of
  R, and no other, has become ACCEPTED and the membership table has gained exactly the
  row (G, U, MEMBER). Over sequences of create and resolve: from a store in which every
  accepted request has its membership and every MEMBER membership its accepted request,
  only such stores are reached.
\<close>

theorem resolve_accept_atomic:
  assumes "find (\<lambda>r. jr_id r = R \<and> jr_groupId r = G) (groupJoinRequests d) = Some r"
    and "jr_status r = PENDING"
    and "consistent d0"
  shows "resolve True d G R Accept c = (Inl InternalError, d) \<and>
     fst (resolve False d G R Accept c) = Inr ACCEPTED \<and>
     (\<exists>xs ys. groupJoinRequests d = xs @ r # ys \<and>
        groupJoinRequests (snd (resolve False d G R Accept c)) =
          xs @ r\<lparr>jr_status := ACCEPTED\<rparr> # ys) \<and>
     groupMembers (snd (resolve False d G R Accept c)) =
       groupMembers d @ [\<lparr>gm_group_id = G, gm_user_id = jr_userId r, gm_role = MEMBER\<rparr>] \<and>
     consistent (run ops d0)"
proof -
  from update_first_split[OF assms(1), of "\<lambda>r. r\<lparr>jr_status := ACCEPTED\<rparr>"]
  obtain xs ys where s: "groupJoinRequests d = xs @ r # ys"
    "set_status G R ACCEPTED (groupJoinRequests d) = xs @ r\<lparr>jr_status := ACCEPTED\<rparr> # ys"
    unfolding set_status_def by blast
  have "groupJoinRequests (snd (resolve False d G R Accept c)) =
      xs @ r\<lparr>jr_status := ACCEPTED\<rparr> # ys"
    using assms(1,2) s(2) by (simp add: resolve_def)
  with s(1) have "\<exists>xs ys. groupJoinRequests d = xs @ r # ys \<and>
        groupJoinRequests (snd (resolve False d G R Accept c)) =
          xs @ r\<lparr>jr_status := ACCEPTED\<rparr> # ys"
    by blast
  then show ?thesis
    using assms run_consistent[OF assms(3)] by (simp add: resolve_def)
qed

theorem resolve_accept_atomic_witness:
  "find (\<lambda>r. jr_id r = ''r1'' \<and> jr_groupId r = ''bookclub'') (groupJoinRequests (ex_db [ex_row PENDING]))
     = Some (ex_row PENDING) \<and>
   consistent (ex_db []) \<and>
   resolve True (ex_db [ex_row PENDING]) ''bookclub'' ''r1'' Accept ''alice'' =
     (Inl InternalError, ex_db [ex_row PENDING]) \<and>
   resolve False (ex_db [ex_row PENDING]) ''bookclub'' ''r1'' Accept ''alice'' =
     (Inr ACCEPTED,
      (ex_db [ex_row ACCEPTED])\<lparr>groupMembers :=
         [ex_admin ''alice'', ex_admin ''carol'', ex_admin ''dave'',
          \<lparr>gm_group_id = ''bookclub'', gm_user_id = ''bob'', gm_role = MEMBER\<rparr>]\<rparr>) \<and>
   consistent (run ex_ops (ex_db []))"
proof -
  have h: "find (\<lambda>r. jr_id r = ''r1'' \<and> jr_groupId r = ''bookclub'')
      (groupJoinRequests (ex_db [ex_row PENDING])) = Some (ex_row PENDING)"
    "jr_status (ex_row PENDING) = PENDING" "consistent (ex_db [])"
    by (simp_all add: ex_db_def ex_row_def consistent_def ex_admin_def)
  have "resolve False (ex_db [ex_row PENDING]) ''bookclub'' ''r1'' Accept ''alice'' =
     (Inr ACCEPTED,
      (ex_db [ex_row ACCEPTED])\<lparr>groupMembers :=
         [ex_admin ''alice'', ex_admin ''carol'', ex_admin ''dave'',
          \<lparr>gm_group_id = ''bookclub'', gm_user_id = ''bob'', gm_role = MEMBER\<rparr>]\<rparr>)"
    by (simp add: resolve_def ex_db_def ex_row_def set_status_def)
  with resolve_accept_atomic[OF h, of "''alice''" ex_ops] h show ?thesis by simp
qed

text \<open>
  C8. After an \<^verbatim>\<open>ok\<close> response for R, the displayed list is the old one without the
  item whose id is R: the items before it and after it stay, in their order (in
  general, the old list filtered on the id). After a response that is not \<^verbatim>\<open>ok\<close>, or
  when the request itself throws, the displayed list is the old one.
\<close>

theorem handleRequestAction_list:
  assumes "requests v = xs @ q # ys" and "req_id q = R"
    and "distinct (map req_id (requests v))"
  shows "requests (handleRequestAction (Response True body) v R a) = xs @ ys \<and>
     requests (handleRequestAction (Response True body) v R' a) =
       filter (\<lambda>req. req_id req \<noteq> R') (requests v) \<and>
     requests (handleRequestAction (Response False body) v R a) = requests v \<and>
     requests (handleRequestAction (FetchThrows err) v R a) = requests v"
proof -
  have "filter (\<lambda>req. req_id req \<noteq> R) (requests v) = xs @ ys"
    using assms filter_distinct_split[of req_id xs q ys] by simp
  then show ?thesis
    by (simp add: handleRequestAction_def catch_toast_def split: error_body.splits)
qed

theorem handleRequestAction_list_witness:
  "requests ex_view = [ex_req ''r1''] @ ex_req ''r2'' # [ex_req ''r3''] \<and>
   req_id (ex_req ''r2'') = ''r2'' \<and> distinct (map req_id (requests ex_view)) \<and>
   requests (handleRequestAction (Response True (ErrorData None)) ex_view ''r2'' Decline) =
     [ex_req ''r1'', ex_req ''r3''] \<and>
   requests (handleRequestAction (Response False (ErrorData None)) ex_view ''r2'' Decline) =
     [ex_req ''r1'', ex_req ''r2'', ex_req ''r3'']"
proof -
  have h: "requests ex_view = [ex_req ''r1''] @ ex_req ''r2'' # [ex_req ''r3'']"
    "req_id (ex_req ''r2'') = ''r2''" "distinct (map req_id (requests ex_view))"
    by (simp_all add: ex_view_def ex_req_def)
  note t = handleRequestAction_list[OF h, of "ErrorData None" Decline]
  from t have a: "requests (handleRequestAction (Response True (ErrorData None)) ex_view ''r2'' Decline) =
     [ex_req ''r1''] @ [ex_req ''r3'']" by (rule conjunct1)
  from t have b: "requests (handleRequestAction (Response False (ErrorData None)) ex_view ''r2'' Decline) =
     requests ex_view" by (rule conjunct1[OF conjunct2[OF conjunct2]])
  from a b h show ?thesis by simp
qed

text \<open>
  C10. If the handler rendered any notification, the upsert did not throw and has been
  applied, and the answer is 201. If the call reaches the upsert and the upsert throws,
  the answer is 500, the store is untouched and the only event is the log line of the
  outer \<^verbatim>\<open>catch\<close>. An admin whose email is null leaves no event at all: the events are
  those of the admin list without that admin.
\<close>

theorem create_notifies_after_upsert:
  "(renders (snd (snd (POST e d G))) \<noteq> [] \<longrightarrow>
      \<not> prisma_throws e RequestUpsert \<and>
      fst (POST e d G) = json ''Join request sent successfully.'' 201 \<and>
      (\<exists>U. fst (snd (POST e d G)) = groupJoinRequest_upsert d G U (created_id e))) \<and>
   (signed_in e' U' \<and> G' \<noteq> [] \<and> group_exists d' G' \<and> \<not> is_member d' G' U' \<and>
    \<not> pending d' G' U' \<and> \<not> prisma_throws e' GroupFindUnique \<and>
    \<not> prisma_throws e' MemberFindUnique \<and> \<not> prisma_throws e' RequestFindUnique \<and>
    prisma_throws e' RequestUpsert \<longrightarrow>
      POST e' d' G' =
        (json ''An internal error occurred.'' 500, d',
         [ConsoleError ''Error processing join request:''])) \<and>
   (u_email (gm_user a) = None \<longrightarrow>
      notify_admins oc rn gn (xs @ a # ys) = notify_admins oc rn gn (xs @ ys))"
  using POST_renders[of e d G] POST_upsert_throws[of e' U' G' d'] notify_admins_skip[of a oc rn gn xs ys]
  by blast

theorem create_notifies_after_upsert_witness:
  "renders (snd (snd (POST (ex_env never) (ex_db []) ''bookclub''))) \<noteq> [] \<and>
   \<not> prisma_throws (ex_env never) RequestUpsert \<and>
   fst (POST (ex_env never) (ex_db []) ''bookclub'') =
     json ''Join request sent successfully.'' 201 \<and>
   signed_in (ex_env upsert_only) ''bob'' \<and> group_exists (ex_db []) ''bookclub'' \<and>
   \<not> is_member (ex_db []) ''bookclub'' ''bob'' \<and> \<not> pending (ex_db []) ''bookclub'' ''bob'' \<and>
   prisma_throws (ex_env upsert_only) RequestUpsert \<and>
   POST (ex_env upsert_only) (ex_db []) ''bookclub'' =
     (json ''An internal error occurred.'' 500, ex_db [],
      [ConsoleError ''Error processing join request:'']) \<and>
   u_email (gm_user (with_user (ex_db []) (ex_admin ''carol''))) = None \<and>
   notify_admins ex_outcome ''Bob'' ''BookClub''
     ([with_user (ex_db []) (ex_admin ''alice'')] @ with_user (ex_db []) (ex_admin ''carol'') #
      [with_user (ex_db []) (ex_admin ''dave'')]) =
   notify_admins ex_outcome ''Bob'' ''BookClub''
     ([with_user (ex_db []) (ex_admin ''alice'')] @ [with_user (ex_db []) (ex_admin ''dave'')])"
proof -
  have r: "renders (snd (snd (POST (ex_env never) (ex_db []) ''bookclub''))) \<noteq> []"
    by (simp add: ex_post renders_def)
  have h: "signed_in (ex_env upsert_only) ''bob'' \<and> ''bookclub'' \<noteq> [] \<and>
    group_exists (ex_db []) ''bookclub'' \<and>
    \<not> is_member (ex_db []) ''bookclub'' ''bob'' \<and> \<not> pending (ex_db []) ''bookclub'' ''bob'' \<and>
    \<not> prisma_throws (ex_env upsert_only) GroupFindUnique \<and>
    \<not> prisma_throws (ex_env upsert_only) MemberFindUnique \<and>
    \<not> prisma_throws (ex_env upsert_only) RequestFindUnique \<and>
    prisma_throws (ex_env upsert_only) RequestUpsert"
    by (simp add: signed_in_def ex_env_def requester_of_def ex_bob_def group_exists_def
        ex_db_def is_member_def ex_admin_def upsert_only_def pending_def)
  have c: "u_email (gm_user (with_user (ex_db []) (ex_admin ''carol''))) = None"
    by (simp add: with_user_def ex_db_def ex_admin_def ex_users_def)
  note t = create_notifies_after_upsert[of "ex_env never" "ex_db []" "''bookclub''"
      "ex_env upsert_only" "''bob''" "''bookclub''" "ex_db []"
      "with_user (ex_db []) (ex_admin ''carol'')" ex_outcome "''Bob''" "''BookClub''"
      "[with_user (ex_db []) (ex_admin ''alice'')]" "[with_user (ex_db []) (ex_admin ''dave'')]"]
  from t r h c show ?thesis by blast
qed

end
